theory Spec2Isabelle
  imports Main
begin

section \<open>Values read from JSON files and from the command line\<close>

text \<open>
  The CLI reads two kinds of JSON files (\<open>package.json\<close> manifests and the project's
  \<open>.yo-rc.json\<close>) and applies JavaScript's truthiness and property access to what it
  finds there.  \<open>JUndefined\<close> is the value of a property that is not there.  An object is
  the list of its own properties.
\<close>

datatype jsval =
    JUndefined
  | JNull
  | JBool bool
  | JNum int
  | JStr string
  | JArr "jsval list"
  | JObj "(string \<times> jsval) list"

text \<open>Uncaught JavaScript exceptions, as values.\<close>

datatype js_error = TypeError | SyntaxError | NotFound

fun truthy :: "jsval \<Rightarrow> bool" where
  "truthy JUndefined = False"
| "truthy JNull = False"
| "truthy (JBool b) = b"
| "truthy (JNum n) = (n \<noteq> 0)"
| "truthy (JStr s) = (s \<noteq> [])"
| "truthy (JArr xs) = True"
| "truthy (JObj kvs) = True"

text \<open>
  \<open>v[k]\<close> for a string key that is not a built-in property name: reading a property of
  \<open>undefined\<close> or \<open>null\<close> throws a TypeError, an object yields its own property or
  \<open>undefined\<close>, every other value yields \<open>undefined\<close>.
\<close>

fun get_prop :: "jsval \<Rightarrow> string \<Rightarrow> js_error + jsval" where
  "get_prop JUndefined k = Inl TypeError"
| "get_prop JNull k = Inl TypeError"
| "get_prop (JObj kvs) k = Inr (case map_of kvs k of None \<Rightarrow> JUndefined | Some v \<Rightarrow> v)"
| "get_prop v k = Inr JUndefined"

section \<open>Strings and paths\<close>

text \<open>\<open>String.prototype.split\<close> on a one-character separator class.\<close>

fun split :: "(char \<Rightarrow> bool) \<Rightarrow> string \<Rightarrow> string list" where
  "split sep [] = [[]]"
| "split sep (c # cs) =
     (if sep c then [] # split sep cs
      else (case split sep cs of [] \<Rightarrow> [[c]] | w # ws \<Rightarrow> (c # w) # ws))"

text \<open>
  \<open>get(object, path)\<close> of lodash.  \<open>baseGet\<close> follows a list of keys and yields
  \<open>undefined\<close> as soon as a step leaves \<open>undefined\<close> or \<open>null\<close>; it never throws.
  A path string that is itself a property of the object is taken as one key, any other
  path is cut at its dots.
\<close>

fun baseGet :: "jsval \<Rightarrow> string list \<Rightarrow> jsval" where
  "baseGet v [] = v"
| "baseGet v (k # ks) = (case get_prop v k of Inl e \<Rightarrow> JUndefined | Inr v' \<Rightarrow> baseGet v' ks)"

fun isKey :: "string \<Rightarrow> jsval \<Rightarrow> bool" where
  "isKey path (JObj kvs) = (map_of kvs path \<noteq> None)"
| "isKey path v = False"

definition get :: "jsval \<Rightarrow> string \<Rightarrow> jsval" where
  "get object path =
     baseGet object (if isKey path object then [path] else split (\<lambda>c. c = CHR ''.'') path)"

text \<open>\<open>String.prototype.startsWith\<close>, \<open>endsWith\<close> and \<open>includes\<close>.\<close>

fun startsWith :: "string \<Rightarrow> string \<Rightarrow> bool" where
  "startsWith s [] = True"
| "startsWith [] (p # ps) = False"
| "startsWith (c # cs) (p # ps) = (c = p \<and> startsWith cs ps)"

definition endsWith :: "string \<Rightarrow> string \<Rightarrow> bool" where
  "endsWith s t = startsWith (rev s) (rev t)"

fun str_includes :: "string \<Rightarrow> string \<Rightarrow> bool" where
  "str_includes [] t = (t = [])"
| "str_includes (c # cs) t = (startsWith (c # cs) t \<or> str_includes cs t)"

text \<open>\<open>Array.prototype.join\<close>.\<close>

fun join :: "string list \<Rightarrow> string \<Rightarrow> string" where
  "join [] sep = []"
| "join [x] sep = x"
| "join (x # y # ys) sep = x @ sep @ join (y # ys) sep"

text \<open>
  Node's POSIX \<open>path.normalize\<close> and \<open>path.join\<close>.  \<open>normalizeString\<close> walks the
  segments between slashes: empty segments and \<open>.\<close> are dropped, \<open>..\<close> removes the
  segment before it when there is one that is not itself \<open>..\<close>, and is kept only when the
  path is relative.
\<close>

fun normalizeString :: "bool \<Rightarrow> string list \<Rightarrow> string list \<Rightarrow> string list" where
  "normalizeString allowAboveRoot res [] = res"
| "normalizeString allowAboveRoot res (s # ss) =
     (if s = [] \<or> s = ''.'' then normalizeString allowAboveRoot res ss
      else if s = ''..'' then
        (if res \<noteq> [] \<and> last res \<noteq> ''..'' then normalizeString allowAboveRoot (butlast res) ss
         else if allowAboveRoot then normalizeString allowAboveRoot (res @ [''..'']) ss
         else normalizeString allowAboveRoot res ss)
      else normalizeString allowAboveRoot (res @ [s]) ss)"

definition path_sep :: string where
  "path_sep = ''/''"

definition path_normalize :: "string \<Rightarrow> string" where
  "path_normalize p =
     (if p = [] then ''.''
      else
        let isAbsolute = (hd p = CHR ''/'');
            trailingSeparator = (last p = CHR ''/'');
            q = join (normalizeString (\<not> isAbsolute) [] (split (\<lambda>c. c = CHR ''/'') p)) ''/''
        in if q = [] then (if isAbsolute then ''/'' else if trailingSeparator then ''./'' else ''.'')
           else (if isAbsolute then ''/'' else []) @ q @ (if trailingSeparator then ''/'' else []))"

definition path_join :: "string list \<Rightarrow> string" where
  "path_join args =
     (let joined = filter (\<lambda>arg. arg \<noteq> []) args
      in if joined = [] then ''.'' else path_normalize (join joined ''/''))"

section \<open>The file system\<close>

text \<open>
  A file is what \<open>require\<close> or \<open>JSON.parse\<close> makes of it: a parsed JSON value, or
  content that does not parse.  The file system maps the paths that exist to files.
\<close>

datatype json_file = Unparsable | Parsed jsval

type_synonym filesystem = "string \<rightharpoonup> json_file"

definition existsSync :: "filesystem \<Rightarrow> string \<Rightarrow> bool" where
  "existsSync fs p = (fs p \<noteq> None)"

text \<open>
  \<open>JSON.parse(fs.readFileSync(path))\<close>, and \<open>require(path)\<close> of a JSON file;
  \<open>require(null)\<close> throws a TypeError.
\<close>

definition readJson :: "filesystem \<Rightarrow> string \<Rightarrow> js_error + jsval" where
  "readJson fs p =
     (case fs p of
        None \<Rightarrow> Inl NotFound
      | Some Unparsable \<Rightarrow> Inl SyntaxError
      | Some (Parsed v) \<Rightarrow> Inr v)"

definition require :: "filesystem \<Rightarrow> string option \<Rightarrow> js_error + jsval" where
  "require fs p = (case p of None \<Rightarrow> Inl TypeError | Some f \<Rightarrow> readJson fs f)"

section \<open>Package manifest resolver\<close>

text \<open>
  The inner function \<open>find\<close> of \<open>_findPackageJson\<close>.  Beside the value the source
  returns (the manifest path, or \<open>None\<close> for \<open>null\<close>) the model records what the source
  does on the way: the paths handed to \<open>fs.existsSync\<close>, in order, and the number of
  calls of \<open>find\<close> (here \<open>find_json\<close>).
\<close>

record find_run =
  found :: "string option"
  checked :: "string list"
  calls :: nat

function find_json :: "filesystem \<Rightarrow> string list \<Rightarrow> find_run" where
  "find_json fs components =
     (if length components = 0 then \<lparr>found = None, checked = [], calls = 1\<rparr>
      else
        let dir = path_join components;
            packageFile = path_join [dir, ''package.json'']
        in if existsSync fs packageFile
           then \<lparr>found = Some packageFile, checked = [packageFile], calls = 1\<rparr>
           else
             let r = find_json fs (butlast components)
             in \<lparr>found = found r, checked = packageFile # checked r, calls = Suc (calls r)\<rparr>)"
  by pat_completeness auto
termination
  by (relation "measure (\<lambda>(fs, components). length components)") auto

declare find_json.simps [simp del]

text \<open>
  \<open>basePath.split(/[/\\]/)\<close>, with the empty first component of an absolute path
  replaced by \<open>path.sep\<close>.
\<close>

definition path_components :: "string \<Rightarrow> string list" where
  "path_components basePath =
     (let components = split (\<lambda>c. c = CHR ''/'' \<or> c = CHR 0x5C) basePath
      in if length components \<noteq> 0 \<and> length (hd components) = 0
         then components[0 := path_sep]
         else components)"

definition findPackageJson_run :: "filesystem \<Rightarrow> string \<Rightarrow> find_run" where
  "findPackageJson_run fs basePath = find_json fs (path_components basePath)"

definition findPackageJson :: "filesystem \<Rightarrow> string \<Rightarrow> string option" where
  "findPackageJson fs basePath = found (findPackageJson_run fs basePath)"

section \<open>The world of one invocation\<close>

text \<open>
  What one run of the CLI reads: the file system, the working directory, the environment
  variable \<open>NGX_PACKAGE_MANAGER\<close>, the generators that \<open>env.getGeneratorsMeta()\<close>
  lists after \<open>env.lookup\<close> (in the order of \<open>Object.keys\<close>), and the persisted
  \<open>disabledAddons\<close> entry of the \<open>Conf\<close> store (\<open>None\<close> when it was never set).
\<close>

record generator =
  resolved :: string
  namespace :: string

record world =
  files :: filesystem
  cwd :: string
  NGX_PACKAGE_MANAGER :: "string option"
  generators :: "generator list"
  disabledAddons :: "(string \<rightharpoonup> bool) option"

text \<open>\<open>this._config.get(disabledAddons)\<close>, with the default \<open>{}\<close> of the constructor.\<close>

definition config_get :: "world \<Rightarrow> (string \<rightharpoonup> bool)" where
  "config_get w = (case disabledAddons w of None \<Rightarrow> Map.empty | Some m \<Rightarrow> m)"

text \<open>\<open>this._config.set(disabledAddons, m)\<close> replaces the entry as a whole.\<close>

definition config_set :: "world \<Rightarrow> (string \<rightharpoonup> bool) \<Rightarrow> world" where
  "config_set w m = w\<lparr>disabledAddons := Some m\<rparr>"

text \<open>
  The stored map is a plain JavaScript object, and the partial map above holds its own
  properties.  A property read \<open>disabled[addon]\<close> yields the object's own property when
  it has one of that name, and otherwise the member of that name which every plain object
  inherits from \<open>Object.prototype\<close>: a function, or for \<open>__proto__\<close> the prototype
  itself.  Every such member is truthy.
\<close>

definition object_prototype :: "string list" where
  "object_prototype =
     [''constructor'', ''__defineGetter__'', ''__defineSetter__'', ''hasOwnProperty'',
      ''__lookupGetter__'', ''__lookupSetter__'', ''isPrototypeOf'', ''propertyIsEnumerable'',
      ''toString'', ''valueOf'', ''__proto__'', ''toLocaleString'']"

text \<open>The truthiness of \<open>disabled[addon]\<close>.\<close>

definition is_disabled :: "(string \<rightharpoonup> bool) \<Rightarrow> string \<Rightarrow> bool" where
  "is_disabled disabled a =
     (case disabled a of None \<Rightarrow> a \<in> set object_prototype | Some b \<Rightarrow> b)"

text \<open>
  The assignment \<open>r[addon] = true\<close>.  It creates or overwrites an own property, except
  for the name \<open>__proto__\<close> on an object that has no own property of that name: there the
  assignment goes to the setter inherited from \<open>Object.prototype\<close>, which ignores a
  boolean, and the object stays as it was.
\<close>

definition assign_true :: "(string \<rightharpoonup> bool) \<Rightarrow> string \<Rightarrow> (string \<rightharpoonup> bool)" where
  "assign_true r a = (if a = ''__proto__'' \<and> r a = None then r else r(a \<mapsto> True))"

section \<open>Add-on discovery\<close>

definition addonKey :: string where
  "addonKey = ''ngx-rocket-addon''"

text \<open>
  \<open>keywords.includes(addonKey)\<close>: membership for an array, substring for a string, and
  a TypeError for a value that has no method \<open>includes\<close>.
\<close>

fun js_includes :: "jsval \<Rightarrow> string \<Rightarrow> js_error + bool" where
  "js_includes (JArr xs) k = Inr (JStr k \<in> set xs)"
| "js_includes (JStr s) k = Inr (str_includes s k)"
| "js_includes v k = Inl TypeError"

text \<open>
  The callback of the \<open>filter\<close> in \<open>_findAddons\<close>.  Nothing catches what
  \<open>require\<close> or the property accesses throw.
\<close>

definition is_addon :: "filesystem \<Rightarrow> generator \<Rightarrow> js_error + bool" where
  "is_addon fs g =
     (let packagePath = findPackageJson fs (resolved g)
      in case require fs packagePath of
           Inl e \<Rightarrow> Inl e
         | Inr pkg \<Rightarrow>
             (case get_prop pkg ''keywords'' of
                Inl e \<Rightarrow> Inl e
              | Inr k \<Rightarrow> js_includes (if truthy k then k else JArr []) addonKey))"

text \<open>\<open>Array.prototype.filter\<close> with a callback that may throw: the first throw ends it.\<close>

fun filter_throwing :: "('a \<Rightarrow> js_error + bool) \<Rightarrow> 'a list \<Rightarrow> js_error + 'a list" where
  "filter_throwing p [] = Inr []"
| "filter_throwing p (x # xs) =
     (case p x of
        Inl e \<Rightarrow> Inl e
      | Inr b \<Rightarrow>
          (case filter_throwing p xs of
             Inl e \<Rightarrow> Inl e
           | Inr ys \<Rightarrow> Inr (if b then x # ys else ys)))"

text \<open>\<open>namespace.replace(/(.*?):app$/, '$1')\<close>.\<close>

definition strip_app :: "string \<Rightarrow> string" where
  "strip_app ns = (if endsWith ns '':app'' then take (length ns - 4) ns else ns)"

definition findAddons :: "world \<Rightarrow> js_error + string list" where
  "findAddons w =
     (case filter_throwing (is_addon (files w)) (generators w) of
        Inl e \<Rightarrow> Inl e
      | Inr gs \<Rightarrow> Inr (map (\<lambda>g. strip_app (namespace g)) gs))"

section \<open>Command-line options\<close>

text \<open>
  The four options the constructor declares, as \<open>minimist\<close> leaves them in
  \<open>this._options\<close>.
\<close>

record options =
  opt_help :: jsval
  opt_npm :: jsval
  opt_addon :: jsval
  opt_packageManager :: jsval

definition booleans :: "string list" where
  "booleans = [''help'', ''npm'', ''addon'', ''packageManager'']"

text \<open>
  \<open>minimist(args, {boolean: [...], alias: {n: 'npm', a: 'addon'}})\<close>, restricted to the
  four declared keys.  \<open>minimist\<close> is the argument parser the constructor calls, a
  dependency named in \<open>package.json\<close> and not part of the repository; the model follows
  its behaviour for the option declaration above, where \<open>packageManager\<close> stands in the
  list \<open>boolean\<close>.  The model covers positional arguments, the terminator \<open>--\<close> and
  the long forms \<open>--key\<close>, \<open>--key=value\<close> and \<open>--no-key\<close>; it is \<open>None\<close> on
  anything else (short options, the long forms of the alias letters, dotted keys).
  A key declared boolean never takes the next argument as its value, except the
  words \<open>true\<close> and \<open>false\<close>.
\<close>

definition covered :: "string \<Rightarrow> bool" where
  "covered key = (key \<noteq> [] \<and> key \<noteq> ''a'' \<and> key \<noteq> ''n'' \<and> CHR ''.'' \<notin> set key \<and> hd key \<noteq> CHR ''='')"

definition setArg :: "options \<Rightarrow> string \<Rightarrow> jsval \<Rightarrow> options" where
  "setArg argv key val =
     (if key = ''help'' then argv\<lparr>opt_help := val\<rparr>
      else if key = ''npm'' then argv\<lparr>opt_npm := val\<rparr>
      else if key = ''addon'' then argv\<lparr>opt_addon := val\<rparr>
      else if key = ''packageManager'' then argv\<lparr>opt_packageManager := val\<rparr>
      else argv)"

text \<open>
  One turn of the loop over the arguments: the options after the argument \<open>arg\<close>, and
  the arguments left for the next turns (\<open>rest\<close>, or one less when the argument took
  its successor as a value).
\<close>

definition minimist_arg :: "options \<Rightarrow> string \<Rightarrow> string list \<Rightarrow> (options \<times> string list) option" where
  "minimist_arg argv arg rest =
     (if startsWith arg ''--'' then
        (let body = drop 2 arg
         in if CHR ''='' \<in> set (tl body) then
              (let key = takeWhile (\<lambda>c. c \<noteq> CHR ''='') body;
                   val = tl (dropWhile (\<lambda>c. c \<noteq> CHR ''='') body)
               in if \<not> covered key then None
                  else if key \<in> set booleans
                    then Some (setArg argv key (JBool (val \<noteq> ''false'')), rest)
                    else Some (argv, rest))
            else if startsWith body ''no-'' \<and> 3 < length body then
              (let key = drop 3 body
               in if \<not> covered key then None
                  else Some (setArg argv key (JBool False), rest))
            else
              (let key = body
               in if \<not> covered key then None
                  else
                    (case rest of
                       [] \<Rightarrow> Some (setArg argv key (JBool True), [])
                     | next # rest' \<Rightarrow>
                         if \<not> startsWith next ''-'' \<and> key \<notin> set booleans
                           then Some (argv, rest')
                         else if next = ''true'' \<or> next = ''false''
                           then Some (setArg argv key (JBool (next = ''true'')), rest')
                         else Some (setArg argv key (JBool True), rest))))
      else if startsWith arg ''-'' \<and> 1 < length arg then None
      else Some (argv, rest))"

function minimist_loop :: "options \<Rightarrow> string list \<Rightarrow> options option" where
  "minimist_loop argv [] = Some argv"
| "minimist_loop argv (arg # rest) =
     (case minimist_arg argv arg rest of
        None \<Rightarrow> None
      | Some (argv', rest') \<Rightarrow> minimist_loop argv' rest')"
  by pat_completeness auto
termination
  by (relation "measure (\<lambda>(argv, args). length args)")
     (auto simp add: minimist_arg_def Let_def split: if_splits list.splits)

definition minimist :: "string list \<Rightarrow> options option" where
  "minimist args =
     minimist_loop
       \<lparr>opt_help = JBool False, opt_npm = JBool False, opt_addon = JBool False,
        opt_packageManager = JBool False\<rparr>
       (takeWhile (\<lambda>arg. arg \<noteq> ''--'') args)"

section \<open>Package manager resolver\<close>

definition rc_path :: "world \<Rightarrow> string" where
  "rc_path w = path_join [cwd w, ''.yo-rc.json'']"

text \<open>The body of the \<open>try\<close> block of \<open>_packageManager\<close>.\<close>

definition read_packageManager :: "world \<Rightarrow> js_error + jsval" where
  "read_packageManager w =
     (case require (files w) (Some (rc_path w)) of
        Inl e \<Rightarrow> Inl e
      | Inr rc \<Rightarrow>
          (case get_prop rc ''generator-ngx-rocket'' of
             Inl e \<Rightarrow> Inl e
           | Inr g \<Rightarrow>
               (case get_prop g ''props'' of
                  Inl e \<Rightarrow> Inl e
                | Inr props \<Rightarrow> get_prop props ''packageManager'')))"

text \<open>The operator \<open>||\<close>, and \<open>process.env.NGX_PACKAGE_MANAGER\<close> as a value.\<close>

definition js_or :: "jsval \<Rightarrow> jsval \<Rightarrow> jsval" where
  "js_or a b = (if truthy a then a else b)"

definition env_packageManager :: "world \<Rightarrow> jsval" where
  "env_packageManager w = (case NGX_PACKAGE_MANAGER w of None \<Rightarrow> JUndefined | Some v \<Rightarrow> JStr v)"

definition packageManager :: "options \<Rightarrow> world \<Rightarrow> jsval" where
  "packageManager opts w =
     (if truthy (opt_packageManager opts) then
        (if opt_packageManager opts = JStr ''yarn'' then JStr ''yarn'' else JStr ''npm'')
      else
        let pm = (case read_packageManager w of Inl e \<Rightarrow> JNull | Inr v \<Rightarrow> v)
        in js_or pm (js_or (env_packageManager w) (JStr ''npm'')))"

section \<open>The commands\<close>

text \<open>
  What a command does to the outside: lines on standard output and standard error, the
  end of the process by \<open>process.exit\<close>, a run of a generator by \<open>env.run\<close> with its
  arguments and option bag, and an exception that nothing catches.  \<open>run_addons\<close> is
  \<open>None\<close> when the option bag has no \<open>addons\<close> entry.
\<close>

record run_options =
  run_update :: bool
  run_packageManager :: jsval
  run_addons :: "string option"
  run_skip_welcome :: bool

datatype event =
    ConsoleLog string
  | ConsoleError string
  | ProcessExit nat
  | EnvRun "string list" run_options
  | Uncaught js_error

definition asciiLogo :: string where
  "asciiLogo = ''ngx-rocket''"

definition no_app_message :: string where
  "no_app_message = ''No existing app found, use ngx new instead''"

text \<open>\<open>_exit(error, code = 1)\<close>: the process ends there, nothing after it runs.\<close>

definition exit_with :: "string \<Rightarrow> nat \<Rightarrow> event list" where
  "exit_with error code = [ConsoleError error, ProcessExit code]"

text \<open>
  The first statement of \<open>generate\<close>: the banner for \<open>new\<close>; for \<open>update\<close> the add-on
  flag read from \<open>.yo-rc.json\<close>, or the exit when there is no such file.  \<open>Inl\<close> is the
  end of the command, \<open>Inr\<close> the events so far and the add-on flag to go on with.
\<close>

definition generate_start :: "world \<Rightarrow> bool \<Rightarrow> jsval \<Rightarrow> event list + event list \<times> jsval" where
  "generate_start w update addon =
     (if \<not> update then Inr ([ConsoleLog asciiLogo], addon)
      else if existsSync (files w) (rc_path w) then
        (case readJson (files w) (rc_path w) of
           Inl e \<Rightarrow> Inl [Uncaught e]
         | Inr rc \<Rightarrow> Inr ([], JBool (truthy (get rc ''generator-ngx-rocket.props.isAddon''))))
      else Inl (exit_with no_app_message 1))"

definition generate :: "options \<Rightarrow> world \<Rightarrow> bool \<Rightarrow> string list \<Rightarrow> jsval \<Rightarrow> event list" where
  "generate opts w update args addon =
     (case generate_start w update addon of
        Inl evs \<Rightarrow> evs
      | Inr (evs, addon') \<Rightarrow>
          if truthy addon' then
            evs @
            [EnvRun (''ngx-rocket:addon'' # filter (\<lambda>arg. arg \<noteq> ''--addon'' \<and> arg \<noteq> ''-a'') args)
               \<lparr>run_update = update, run_packageManager = packageManager opts w,
                run_addons = None, run_skip_welcome = True\<rparr>]
          else
            (let disabled = config_get w
             in case findAddons w of
                  Inl e \<Rightarrow> evs @ [Uncaught e]
                | Inr found_addons \<Rightarrow>
                    (let addons = filter (\<lambda>a. \<not> is_disabled disabled a) found_addons
                     in evs @
                        [EnvRun (''ngx-rocket'' # args)
                           \<lparr>run_update = update, run_packageManager = packageManager opts w,
                            run_addons = Some (join addons '' ''), run_skip_welcome = True\<rparr>,
                         ConsoleLog []])))"

text \<open>
  \<open>configure\<close>.  The answer of the checkbox prompt is the user's: a function from the
  choices shown (name and initial check mark) to the names selected.
\<close>

definition configure :: "world \<Rightarrow> ((string \<times> bool) list \<Rightarrow> string list) \<Rightarrow> event list \<times> world" where
  "configure w prompt =
     (case findAddons w of
        Inl e \<Rightarrow> ([Uncaught e], w)
      | Inr addons \<Rightarrow>
          (let disabled = config_get w;
               answers = prompt (map (\<lambda>a. (a, \<not> is_disabled disabled a)) addons);
               new_disabled =
                 fold (\<lambda>a r. assign_true r a) (filter (\<lambda>a. a \<notin> set answers) addons) Map.empty
           in ([ConsoleLog ''Configuration saved.''], config_set w new_disabled)))"

section \<open>Example worlds\<close>

text \<open>
  Four generators are installed under \<open>/m\<close>: the app generator itself, whose manifest
  does not carry the add-on keyword, and the add-ons \<open>foo\<close>, \<open>bar\<close> and \<open>baz\<close>.
  The working directory \<open>/proj\<close> holds no \<open>.yo-rc.json\<close>, the environment variable is
  not set, and \<open>baz\<close> is disabled in the preference store.
\<close>

definition own_manifest :: jsval where
  "own_manifest =
     JObj [(''name'', JStr ''generator-ngx-rocket''), (''version'', JStr ''6.0.0''),
           (''keywords'', JArr [JStr ''yeoman-generator'', JStr ''ngx'', JStr ''rocket'',
                                JStr ''app'', JStr ''addon''])]"

definition addon_manifest :: jsval where
  "addon_manifest =
     JObj [(''keywords'', JArr [JStr ''yeoman-generator'', JStr ''ngx-rocket-addon''])]"

definition example_world :: world where
  "example_world =
     \<lparr>files = map_of
        [(''/m/generator-ngx-rocket/package.json'', Parsed own_manifest),
         (''/m/generator-foo/package.json'', Parsed addon_manifest),
         (''/m/generator-bar/package.json'', Parsed addon_manifest),
         (''/m/generator-baz/package.json'', Parsed addon_manifest)],
      cwd = ''/proj'',
      NGX_PACKAGE_MANAGER = None,
      generators =
        [\<lparr>resolved = ''/m/generator-ngx-rocket/generators/app/index.js'', namespace = ''ngx-rocket''\<rparr>,
         \<lparr>resolved = ''/m/generator-foo/generators/app/index.js'', namespace = ''foo:app''\<rparr>,
         \<lparr>resolved = ''/m/generator-bar/generators/app/index.js'', namespace = ''bar:app''\<rparr>,
         \<lparr>resolved = ''/m/generator-baz/generators/app/index.js'', namespace = ''baz:app''\<rparr>],
      disabledAddons = Some [''baz'' \<mapsto> True]\<rparr>"

text \<open>
  The same with one more generator, found in a directory that has no \<open>package.json\<close>
  above it; and the same with the manifest of \<open>bar\<close> unreadable.
\<close>

definition stray_world :: world where
  "stray_world =
     example_world
       \<lparr>generators :=
          \<lparr>resolved = ''/tmp/gen/app/index.js'', namespace = ''gen:app''\<rparr> # generators example_world\<rparr>"

definition broken_world :: world where
  "broken_world =
     example_world\<lparr>files := (files example_world)(''/m/generator-bar/package.json'' \<mapsto> Unparsable)\<rparr>"

text \<open>
  The example with a fourth add-on installed and a preference store that was never
  written: once with the add-on \<open>generator-constructor\<close>, once with an add-on whose
  identifier is \<open>__proto__\<close>.
\<close>

definition with_addon :: "string \<Rightarrow> world" where
  "with_addon name =
     example_world
       \<lparr>files := (files example_world)(''/m/generator-'' @ name @ ''/package.json'' \<mapsto> Parsed addon_manifest),
        generators :=
          generators example_world @
          [\<lparr>resolved = ''/m/generator-'' @ name @ ''/generators/app/index.js'',
            namespace = name @ '':app''\<rparr>],
        disabledAddons := None\<rparr>"

definition constructor_world :: world where
  "constructor_world = with_addon ''constructor''"

definition proto_world :: world where
  "proto_world = with_addon ''__proto__''"

text \<open>The options of a command line without flags.\<close>

definition no_flags :: options where
  "no_flags =
     \<lparr>opt_help = JBool False, opt_npm = JBool False, opt_addon = JBool False,
      opt_packageManager = JBool False\<rparr>"

text \<open>
  A project manifest as the generator writes it, and a world whose working directory
  holds the given \<open>.yo-rc.json\<close>.
\<close>

definition yo_rc :: "bool \<Rightarrow> string \<Rightarrow> jsval" where
  "yo_rc isAddon pm =
     JObj [(''generator-ngx-rocket'',
            JObj [(''version'', JStr ''6.0.0''),
                  (''props'', JObj [(''isAddon'', JBool isAddon), (''packageManager'', JStr pm)])])]"

definition in_project :: "world \<Rightarrow> json_file \<Rightarrow> world" where
  "in_project w f = w\<lparr>files := (files w)(rc_path w \<mapsto> f)\<rparr>"

text \<open>
  A yarn project with the environment variable set to yarn as well; a world whose
  environment variable names another package manager.
\<close>

definition yarn_world :: world where
  "yarn_world =
     in_project (example_world\<lparr>NGX_PACKAGE_MANAGER := Some ''yarn''\<rparr>) (Parsed (yo_rc False ''yarn''))"

definition pnpm_world :: world where
  "pnpm_world = example_world\<lparr>NGX_PACKAGE_MANAGER := Some ''pnpm''\<rparr>"

section \<open>Facts about the manifest resolver\<close>

abbreviation manifest_in :: "string list \<Rightarrow> string" where
  "manifest_in components \<equiv> path_join [path_join components, ''package.json'']"

lemma split_not_Nil: "split sep s \<noteq> []"
  by (induction s) (auto split: list.splits)

lemma find_json_Nil: "find_json fs [] = \<lparr>found = None, checked = [], calls = 1\<rparr>"
  by (simp add: find_json.simps)

lemma find_json_hit:
  "cs \<noteq> [] \<Longrightarrow> existsSync fs (manifest_in cs) \<Longrightarrow>
   find_json fs cs = \<lparr>found = Some (manifest_in cs), checked = [manifest_in cs], calls = 1\<rparr>"
  by (subst find_json.simps) (simp add: Let_def)

lemma find_json_miss:
  "cs \<noteq> [] \<Longrightarrow> \<not> existsSync fs (manifest_in cs) \<Longrightarrow>
   find_json fs cs =
     \<lparr>found = found (find_json fs (butlast cs)),
      checked = manifest_in cs # checked (find_json fs (butlast cs)),
      calls = Suc (calls (find_json fs (butlast cs)))\<rparr>"
  by (subst find_json.simps) (simp add: Let_def)

text \<open>
  Each property of the walk is proved by induction on the components from the right,
  which is the order in which the walk drops them.
\<close>

lemma checked_le: "length (checked (find_json fs cs)) \<le> length cs"
proof (induction cs rule: rev_induct)
  case Nil
  show ?case by (simp add: find_json_Nil)
next
  case (snoc x xs)
  show ?case
  proof (cases "existsSync fs (manifest_in (xs @ [x]))")
    case True
    then show ?thesis by (simp add: find_json_hit)
  next
    case False
    with snoc show ?thesis by (simp add: find_json_miss)
  qed
qed

lemma calls_checked:
  "calls (find_json fs cs) =
   length (checked (find_json fs cs)) + (if found (find_json fs cs) = None then 1 else 0)"
proof (induction cs rule: rev_induct)
  case Nil
  show ?case by (simp add: find_json_Nil)
next
  case (snoc x xs)
  show ?case
  proof (cases "existsSync fs (manifest_in (xs @ [x]))")
    case True
    then show ?thesis by (simp add: find_json_hit)
  next
    case False
    with snoc show ?thesis by (simp add: find_json_miss)
  qed
qed

lemma found_exists:
  "found (find_json fs cs) = Some f \<Longrightarrow>
   existsSync fs f \<and> checked (find_json fs cs) \<noteq> [] \<and> last (checked (find_json fs cs)) = f"
proof (induction cs rule: rev_induct)
  case Nil
  then show ?case by (simp add: find_json_Nil)
next
  case (snoc x xs)
  show ?case
  proof (cases "existsSync fs (manifest_in (xs @ [x]))")
    case True
    with snoc.prems show ?thesis by (auto simp add: find_json_hit)
  next
    case False
    with snoc show ?thesis by (simp add: find_json_miss)
  qed
qed

lemma none_length:
  "found (find_json fs cs) = None \<Longrightarrow> length (checked (find_json fs cs)) = length cs"
proof (induction cs rule: rev_induct)
  case Nil
  show ?case by (simp add: find_json_Nil)
next
  case (snoc x xs)
  show ?case
  proof (cases "existsSync fs (manifest_in (xs @ [x]))")
    case True
    with snoc.prems show ?thesis by (simp add: find_json_hit)
  next
    case False
    with snoc show ?thesis by (simp add: find_json_miss)
  qed
qed

lemma none_iff:
  "found (find_json fs cs) = None \<longleftrightarrow>
   (\<forall>q \<in> set (checked (find_json fs cs)). \<not> existsSync fs q)"
proof (induction cs rule: rev_induct)
  case Nil
  show ?case by (simp add: find_json_Nil)
next
  case (snoc x xs)
  show ?case
  proof (cases "existsSync fs (manifest_in (xs @ [x]))")
    case True
    then show ?thesis by (simp add: find_json_hit)
  next
    case False
    with snoc show ?thesis by (simp add: find_json_miss)
  qed
qed

lemma none_last:
  "cs \<noteq> [] \<Longrightarrow> found (find_json fs cs) = None \<Longrightarrow>
   last (checked (find_json fs cs)) = manifest_in [hd cs]"
proof (induction cs rule: rev_induct)
  case Nil
  then show ?case by simp
next
  case (snoc x xs)
  have miss: "\<not> existsSync fs (manifest_in (xs @ [x]))"
    using snoc.prems(2) by (auto simp add: find_json_hit)
  show ?case
  proof (cases "xs = []")
    case True
    with miss show ?thesis by (simp add: find_json_miss find_json_Nil)
  next
    case False
    from miss snoc.prems have none: "found (find_json fs xs) = None"
      by (simp add: find_json_miss)
    with False snoc.IH have l: "last (checked (find_json fs xs)) = manifest_in [hd xs]"
      by simp
    from False none have "checked (find_json fs xs) \<noteq> []"
      using none_length [of fs xs] by auto
    with l miss False show ?thesis by (simp add: find_json_miss)
  qed
qed

lemma path_components_absolute:
  "startsWith basePath ''/'' \<Longrightarrow> path_components basePath \<noteq> [] \<and> hd (path_components basePath) = ''/''"
  by (cases basePath) (simp_all add: path_components_def path_sep_def)

lemma root_manifest: "manifest_in [''/''] = ''/package.json''"
  by (simp add: path_join_def path_normalize_def)

lemma length_path_components:
  "length (path_components basePath) = length (split (\<lambda>c. c = CHR ''/'' \<or> c = CHR 0x5C) basePath)"
  by (simp add: path_components_def Let_def)

text \<open>
  C5.  For a base path of N segments (the components the source splits it into, the root
  of an absolute path being one of them) the resolver makes at most N existence checks.
  It returns null exactly when every check fails; it has then made all N checks, and
  for an absolute path the last of them is the manifest of the file system root.
\<close>

theorem findPackageJson_checks:
  "length (checked (findPackageJson_run fs basePath)) \<le> length (path_components basePath) \<and>
   (findPackageJson fs basePath = None \<longleftrightarrow>
      (\<forall>q \<in> set (checked (findPackageJson_run fs basePath)). \<not> existsSync fs q)) \<and>
   (findPackageJson fs basePath = None \<longrightarrow>
      length (checked (findPackageJson_run fs basePath)) = length (path_components basePath)) \<and>
   (findPackageJson fs basePath = None \<and> startsWith basePath ''/'' \<longrightarrow>
      last (checked (findPackageJson_run fs basePath)) = ''/package.json'')"
proof -
  let ?cs = "path_components basePath"
  have a: "length (checked (find_json fs ?cs)) \<le> length ?cs"
    by (rule checked_le)
  have b: "found (find_json fs ?cs) = None \<longleftrightarrow>
           (\<forall>q \<in> set (checked (find_json fs ?cs)). \<not> existsSync fs q)"
    by (rule none_iff)
  have c: "found (find_json fs ?cs) = None \<longrightarrow> length (checked (find_json fs ?cs)) = length ?cs"
    by (simp add: none_length)
  have d: "found (find_json fs ?cs) = None \<and> startsWith basePath ''/'' \<longrightarrow>
           last (checked (find_json fs ?cs)) = ''/package.json''"
  proof
    assume h: "found (find_json fs ?cs) = None \<and> startsWith basePath ''/''"
    then have "?cs \<noteq> []" and "hd ?cs = ''/''"
      using path_components_absolute [of basePath] by simp_all
    with h show "last (checked (find_json fs ?cs)) = ''/package.json''"
      using none_last [of ?cs fs] root_manifest by simp
  qed
  from a b c d show ?thesis
    unfolding findPackageJson_def findPackageJson_run_def by blast
qed

lemma resolve_abc:
  "checked (findPackageJson_run Map.empty ''/a/b/c'') =
     [''/a/b/c/package.json'', ''/a/b/package.json'', ''/a/package.json'', ''/package.json'']"
  by code_simp

lemma resolve_abc_none: "findPackageJson Map.empty ''/a/b/c'' = None"
  by code_simp

lemma components_abc: "path_components ''/a/b/c'' = [''/'', ''a'', ''b'', ''c'']"
  by code_simp

theorem findPackageJson_checks_witness:
  "findPackageJson Map.empty ''/a/b/c'' = None \<and>
   startsWith ''/a/b/c'' ''/'' \<and>
   length (path_components ''/a/b/c'') = 4 \<and>
   length (checked (findPackageJson_run Map.empty ''/a/b/c'')) = 4 \<and>
   last (checked (findPackageJson_run Map.empty ''/a/b/c'')) = ''/package.json''"
  using findPackageJson_checks [of Map.empty "''/a/b/c''"] resolve_abc_none components_abc
  by simp

text \<open>
  C10.  The walk is a total function: each call of \<open>find\<close> on a non-empty list calls
  itself on the list without its last component, and the definition above is accepted
  with the length of the list as the measure.  For a path of N components it returns after
  at most N + 1 calls, one per existence check and one more when it ends with null; what
  it returns is null or a manifest path that it has just seen to exist.
\<close>

theorem findPackageJson_terminates:
  "calls (findPackageJson_run fs basePath) \<le> length (path_components basePath) + 1 \<and>
   calls (findPackageJson_run fs basePath) =
     length (checked (findPackageJson_run fs basePath)) +
     (if findPackageJson fs basePath = None then 1 else 0) \<and>
   (case findPackageJson fs basePath of
      None \<Rightarrow> True
    | Some f \<Rightarrow> existsSync fs f \<and> last (checked (findPackageJson_run fs basePath)) = f)"
proof -
  let ?cs = "path_components basePath"
  have a: "calls (find_json fs ?cs) =
           length (checked (find_json fs ?cs)) + (if found (find_json fs ?cs) = None then 1 else 0)"
    by (rule calls_checked)
  have b: "length (checked (find_json fs ?cs)) \<le> length ?cs"
    by (rule checked_le)
  from a b have c: "calls (find_json fs ?cs) \<le> length ?cs + 1"
    by (simp split: if_splits)
  have d: "case found (find_json fs ?cs) of
             None \<Rightarrow> True
           | Some f \<Rightarrow> existsSync fs f \<and> last (checked (find_json fs ?cs)) = f"
    using found_exists [of fs ?cs] by (simp split: option.splits)
  from a c d show ?thesis
    unfolding findPackageJson_def findPackageJson_run_def by simp
qed

section \<open>Facts about add-on discovery\<close>

lemma filter_throwing_aborts:
  "x \<in> set xs \<Longrightarrow> p x = Inl e \<Longrightarrow> \<exists>e'. filter_throwing p xs = Inl e'"
proof (induction xs)
  case Nil
  then show ?case by simp
next
  case (Cons y ys)
  show ?case
  proof (cases "p y")
    case (Inl a)
    then show ?thesis by simp
  next
    case (Inr b)
    with Cons.prems have "x \<in> set ys" by auto
    with Cons.IH Cons.prems(2) obtain e' where "filter_throwing p ys = Inl e'" by blast
    with Inr show ?thesis by simp
  qed
qed

text \<open>
  One generator without a manifest anywhere above it ends the discovery with an
  exception, wherever it stands in the list and whatever the other generators are.
\<close>

lemma discovery_aborts:
  assumes "g \<in> set (generators w)" and "findPackageJson (files w) (resolved g) = None"
  shows "\<exists>e. findAddons w = Inl e"
proof -
  have "require (files w) (findPackageJson (files w) (resolved g)) = Inl TypeError"
    unfolding assms(2) by (simp add: require_def)
  then have "is_addon (files w) g = Inl TypeError"
    by (simp add: is_addon_def)
  with assms(1) obtain e where "filter_throwing (is_addon (files w)) (generators w) = Inl e"
    using filter_throwing_aborts [of g "generators w" "is_addon (files w)" TypeError] by auto
  then show ?thesis by (simp add: findAddons_def)
qed

lemma example_discovery: "findAddons example_world = Inr [''foo'', ''bar'', ''baz'']"
  by code_simp

text \<open>
  C3.  The claim does not hold of the code.  In \<open>stray_world\<close> the first generator has no
  manifest: \<open>_findPackageJson\<close> returns null, \<open>require(null)\<close> throws inside the
  \<open>filter\<close> callback, nothing catches it, and the discovery yields no list at all,
  although three add-ons are installed.  In \<open>broken_world\<close> an unreadable manifest ends
  the discovery in the same way.
\<close>

theorem discovery_aborts_on_missing_manifest:
  "findAddons stray_world = Inl TypeError \<and> findAddons broken_world = Inl SyntaxError"
  by code_simp

section \<open>Facts about the commands\<close>

lemma generate_start_new: "generate_start w False addon = Inr ([ConsoleLog asciiLogo], addon)"
  by (simp add: generate_start_def)

lemma generate_start_missing:
  "files w (rc_path w) = None \<Longrightarrow> generate_start w True addon = Inl (exit_with no_app_message 1)"
  by (simp add: generate_start_def existsSync_def)

lemma generate_start_parsed:
  "files w (rc_path w) = Some (Parsed rc) \<Longrightarrow>
   generate_start w True addon =
     Inr ([], JBool (truthy (get rc ''generator-ngx-rocket.props.isAddon'')))"
  by (simp add: generate_start_def existsSync_def readJson_def)

lemma generate_start_unparsable:
  "files w (rc_path w) = Some Unparsable \<Longrightarrow>
   generate_start w True addon = Inl [Uncaught SyntaxError]"
  by (simp add: generate_start_def existsSync_def readJson_def)

lemma example_config: "config_get example_world = [''baz'' \<mapsto> True]"
  by (simp add: config_get_def example_world_def)

lemma example_packageManager: "packageManager no_flags example_world = JStr ''npm''"
  by code_simp

lemma example_no_manifest: "files example_world (rc_path example_world) = None"
  by code_simp

text \<open>
  What \<open>generate\<close> passes to the app generator when the add-on flag is not in effect
  (\<open>new\<close> with a falsy flag, or \<open>update\<close> in a project whose manifest does not say
  \<open>isAddon\<close>, whatever the command line says) and the discovery has returned: the
  discovered identifiers for which \<open>disabled[addon]\<close> is falsy, joined by spaces.
\<close>

lemma generate_app:
  assumes "findAddons w = Inr discovered"
    and "(\<not> update \<and> \<not> truthy addon) \<or>
         (update \<and> (\<exists>rc. files w (rc_path w) = Some (Parsed rc) \<and>
                          \<not> truthy (get rc ''generator-ngx-rocket.props.isAddon'')))"
  shows "generate opts w update args addon =
           (if update then [] else [ConsoleLog asciiLogo]) @
           [EnvRun (''ngx-rocket'' # args)
              \<lparr>run_update = update, run_packageManager = packageManager opts w,
               run_addons =
                 Some (join (filter (\<lambda>a. \<not> is_disabled (config_get w) a) discovered) '' ''),
               run_skip_welcome = True\<rparr>,
            ConsoleLog []]"
  using assms(2)
proof (elim disjE conjE exE)
  assume "\<not> update" and "\<not> truthy addon"
  with assms(1) show ?thesis by (simp add: generate_def generate_start_new)
next
  fix rc
  assume "update" and "files w (rc_path w) = Some (Parsed rc)"
    and "\<not> truthy (get rc ''generator-ngx-rocket.props.isAddon'')"
  with assms(1) show ?thesis by (simp add: generate_def generate_start_parsed)
qed

text \<open>
  For an identifier that is not the name of a member of \<open>Object.prototype\<close> the read
  is the lookup in the stored map, and among such identifiers the add-ons passed on are
  the discovered ones less those the store maps to true.
\<close>

lemma is_disabled_own:
  "a \<notin> set object_prototype \<Longrightarrow> is_disabled disabled a = (disabled a = Some True)"
  by (simp add: is_disabled_def split: option.splits)

lemma enabled_addons_outside_prototype:
  assumes "set discovered \<inter> set object_prototype = {}"
  shows "set (filter (\<lambda>a. \<not> is_disabled (config_get w) a) discovered) =
           set discovered - {a. config_get w a = Some True}"
proof -
  have "\<And>a. a \<in> set discovered \<Longrightarrow>
          is_disabled (config_get w) a = (config_get w a = Some True)"
    using assms by (intro is_disabled_own) blast
  then show ?thesis by auto
qed

lemma example_generate:
  "generate no_flags example_world False [''shop''] (JBool False) =
     [ConsoleLog asciiLogo,
      EnvRun [''ngx-rocket'', ''shop'']
        \<lparr>run_update = False, run_packageManager = JStr ''npm'',
         run_addons = Some ''foo bar'', run_skip_welcome = True\<rparr>,
      ConsoleLog []]"
  using generate_app [OF example_discovery, of False "JBool False" no_flags "[''shop'']"]
  by (simp add: example_config example_packageManager is_disabled_def object_prototype_def)

lemma constructor_discovery:
  "findAddons constructor_world = Inr [''foo'', ''bar'', ''baz'', ''constructor'']"
  by code_simp

lemma constructor_config: "config_get constructor_world = Map.empty"
  by (simp add: config_get_def constructor_world_def with_addon_def)

lemma constructor_packageManager: "packageManager no_flags constructor_world = JStr ''npm''"
  by code_simp

text \<open>
  C1.  The claim does not hold of the code for an add-on whose identifier is the name of
  a member of \<open>Object.prototype\<close>.  In \<open>constructor_world\<close> four add-ons are discovered
  and the preference store has no entry at all, yet \<open>ngx new shop\<close> passes only three of
  them on: \<open>disabled['constructor']\<close> is the inherited constructor function, which is
  truthy, so the filter drops the add-on \<open>constructor\<close> although the store does not
  mention it.
\<close>

theorem absent_addon_is_dropped:
  "findAddons constructor_world = Inr [''foo'', ''bar'', ''baz'', ''constructor''] \<and>
   config_get constructor_world ''constructor'' = None \<and>
   generate no_flags constructor_world False [''shop''] (JBool False) =
     [ConsoleLog asciiLogo,
      EnvRun [''ngx-rocket'', ''shop'']
        \<lparr>run_update = False, run_packageManager = JStr ''npm'',
         run_addons = Some ''foo bar baz'', run_skip_welcome = True\<rparr>,
      ConsoleLog []]"
  using generate_app [OF constructor_discovery, of False "JBool False" no_flags "[''shop'']"]
  by (simp add: constructor_discovery constructor_config constructor_packageManager
        is_disabled_def object_prototype_def)

text \<open>
  What \<open>configure\<close> stores: every discovered add-on the user did not select is mapped to
  true, except the identifier \<open>__proto__\<close>, for which the assignment stores nothing; the
  map has no other key.
\<close>

lemma fold_assign_true:
  "m ''__proto__'' = None \<Longrightarrow>
   fold (\<lambda>a r. assign_true r a) xs m =
     (\<lambda>a. if a \<in> set xs \<and> a \<noteq> ''__proto__'' then Some True else m a)"
proof (induction xs arbitrary: m)
  case Nil
  then show ?case by simp
next
  case (Cons x xs)
  have "assign_true m x ''__proto__'' = None"
    using Cons.prems by (simp add: assign_true_def)
  with Cons.IH [of "assign_true m x"]
  have "fold (\<lambda>a r. assign_true r a) xs (assign_true m x) =
          (\<lambda>a. if a \<in> set xs \<and> a \<noteq> ''__proto__'' then Some True else assign_true m x a)"
    by simp
  with Cons.prems show ?case
    by (auto simp add: assign_true_def fun_eq_iff)
qed

lemma configure_persists:
  assumes "findAddons w = Inr discovered"
    and "selected = prompt (map (\<lambda>a. (a, \<not> is_disabled (config_get w) a)) discovered)"
  shows "disabledAddons (snd (configure w prompt)) =
           Some (\<lambda>a. if a \<in> set discovered \<and> a \<notin> set selected \<and> a \<noteq> ''__proto__''
                      then Some True else None)"
  using assms by (simp add: configure_def Let_def config_set_def fold_assign_true)

lemma example_configure:
  "disabledAddons (snd (configure example_world (\<lambda>choices. [''foo'', ''baz'']))) =
     Some [''bar'' \<mapsto> True]"
proof -
  have "(\<lambda>a. if a \<in> set [''foo'', ''bar'', ''baz''] \<and> a \<notin> set [''foo'', ''baz''] \<and>
                a \<noteq> ''__proto__''
              then Some True else None) = [''bar'' \<mapsto> True]"
    by (auto simp add: fun_eq_iff)
  with configure_persists
         [OF example_discovery, of "[''foo'', ''baz'']" "\<lambda>choices. [''foo'', ''baz'']"]
  show ?thesis by simp
qed

lemma proto_discovery:
  "findAddons proto_world = Inr [''foo'', ''bar'', ''baz'', ''__proto__'']"
  by code_simp

text \<open>
  C6.  The claim does not hold of the code for the identifier \<open>__proto__\<close>.  In
  \<open>proto_world\<close> four add-ons are discovered and the user selects three of them; the
  fourth, \<open>__proto__\<close>, is not selected, yet the map that \<open>configure\<close> stores is empty:
  \<open>r['__proto__'] = true\<close> on the object literal \<open>{}\<close> stores no property.
\<close>

theorem unselected_proto_is_not_persisted:
  "findAddons proto_world = Inr [''foo'', ''bar'', ''baz'', ''__proto__''] \<and>
   disabledAddons (snd (configure proto_world (\<lambda>choices. [''foo'', ''bar'', ''baz'']))) =
     Some Map.empty"
proof -
  have "(\<lambda>a. if a \<in> set [''foo'', ''bar'', ''baz'', ''__proto__''] \<and>
                a \<notin> set [''foo'', ''bar'', ''baz''] \<and> a \<noteq> ''__proto__''
              then Some True else None) = (Map.empty :: string \<rightharpoonup> bool)"
    by (auto simp add: fun_eq_iff)
  with configure_persists
         [OF proto_discovery, of "[''foo'', ''bar'', ''baz'']" "\<lambda>choices. [''foo'', ''bar'', ''baz'']"]
  show ?thesis by (simp add: proto_discovery)
qed

text \<open>
  C7.  \<open>update\<close> in a working directory without \<open>.yo-rc.json\<close> writes the error message
  and ends the process with status 1; no generator is run.
\<close>

theorem update_without_manifest_exits:
  assumes "\<not> existsSync (files w) (rc_path w)"
  shows "generate opts w True args addon = [ConsoleError no_app_message, ProcessExit 1] \<and>
         (\<forall>ns ro. EnvRun ns ro \<notin> set (generate opts w True args addon))"
proof -
  from assms have "files w (rc_path w) = None" by (simp add: existsSync_def)
  then have "generate opts w True args addon = [ConsoleError no_app_message, ProcessExit 1]"
    by (simp add: generate_def generate_start_missing exit_with_def)
  then show ?thesis by simp
qed

theorem update_without_manifest_exits_witness:
  "\<not> existsSync (files example_world) (rc_path example_world) \<and>
   generate no_flags example_world True [''--tools''] (JBool False) =
     [ConsoleError no_app_message, ProcessExit 1]"
proof -
  have h: "\<not> existsSync (files example_world) (rc_path example_world)"
    by (simp add: existsSync_def example_no_manifest)
  from update_without_manifest_exits [OF h, of no_flags "[''--tools'']" "JBool False"] h
  show ?thesis by simp
qed

text \<open>
  C9.  When the add-on flag is in effect (\<open>new\<close> with a truthy flag, or \<open>update\<close> in a
  project whose manifest says \<open>isAddon\<close>, whatever the command line says) the add-on
  generator is run with the remaining arguments and the resolved package manager, and
  its option bag has no \<open>addons\<close> entry.
\<close>

theorem addon_flag_bypasses_composition:
  assumes "(\<not> update \<and> truthy addon) \<or>
           (update \<and> (\<exists>rc. files w (rc_path w) = Some (Parsed rc) \<and>
                            truthy (get rc ''generator-ngx-rocket.props.isAddon'')))"
  shows "generate opts w update args addon =
           (if update then [] else [ConsoleLog asciiLogo]) @
           [EnvRun (''ngx-rocket:addon'' # filter (\<lambda>arg. arg \<noteq> ''--addon'' \<and> arg \<noteq> ''-a'') args)
              \<lparr>run_update = update, run_packageManager = packageManager opts w,
               run_addons = None, run_skip_welcome = True\<rparr>]"
  using assms
proof (elim disjE conjE exE)
  assume "\<not> update" and "truthy addon"
  then show ?thesis by (simp add: generate_def generate_start_new)
next
  fix rc
  assume "update" and "files w (rc_path w) = Some (Parsed rc)"
    and "truthy (get rc ''generator-ngx-rocket.props.isAddon'')"
  then show ?thesis by (simp add: generate_def generate_start_parsed)
qed

lemma addon_project_manifest:
  "files (in_project example_world (Parsed (yo_rc True ''yarn'')))
     (rc_path (in_project example_world (Parsed (yo_rc True ''yarn'')))) =
   Some (Parsed (yo_rc True ''yarn''))"
  by code_simp

lemma addon_project_flag:
  "get (yo_rc True ''yarn'') ''generator-ngx-rocket.props.isAddon'' = JBool True"
  by code_simp

lemma addon_project_packageManager:
  "packageManager no_flags (in_project example_world (Parsed (yo_rc True ''yarn''))) = JStr ''yarn''"
  by code_simp

theorem addon_flag_bypasses_composition_witness:
  "generate no_flags (in_project example_world (Parsed (yo_rc True ''yarn''))) True
     [''--tools''] (JBool False) =
     [EnvRun [''ngx-rocket:addon'', ''--tools'']
        \<lparr>run_update = True, run_packageManager = JStr ''yarn'',
         run_addons = None, run_skip_welcome = True\<rparr>] \<and>
   generate no_flags example_world False [''kit'', ''--addon''] (JBool True) =
     [ConsoleLog asciiLogo,
      EnvRun [''ngx-rocket:addon'', ''kit'']
        \<lparr>run_update = False, run_packageManager = JStr ''npm'',
         run_addons = None, run_skip_welcome = True\<rparr>]"
  using addon_flag_bypasses_composition
          [of True "JBool False" "in_project example_world (Parsed (yo_rc True ''yarn''))"
              no_flags "[''--tools'']"]
        addon_flag_bypasses_composition
          [of False "JBool True" example_world no_flags "[''kit'', ''--addon'']"]
  by (simp add: addon_project_manifest addon_project_flag addon_project_packageManager
        example_packageManager)

section \<open>Facts about the package manager resolver\<close>

lemma read_packageManager_missing:
  "files w (rc_path w) = None \<Longrightarrow> read_packageManager w = Inl NotFound"
  by (simp add: read_packageManager_def require_def readJson_def)

lemma read_packageManager_unparsable:
  "files w (rc_path w) = Some Unparsable \<Longrightarrow> read_packageManager w = Inl SyntaxError"
  by (simp add: read_packageManager_def require_def readJson_def)

text \<open>
  On a manifest that parses, the chain of property reads yields what \<open>baseGet\<close> finds at
  the path, unless it throws; and where it throws \<open>baseGet\<close> finds \<open>undefined\<close>.
\<close>

lemma read_packageManager_parsed:
  "files w (rc_path w) = Some (Parsed rc) \<Longrightarrow>
   (case read_packageManager w of Inl e \<Rightarrow> JUndefined | Inr v \<Rightarrow> v) =
   baseGet rc [''generator-ngx-rocket'', ''props'', ''packageManager'']"
  by (simp add: read_packageManager_def require_def readJson_def split: sum.splits)

lemma recorded_falsy:
  assumes "files w (rc_path w) = None \<or> files w (rc_path w) = Some Unparsable \<or>
           (\<exists>rc. files w (rc_path w) = Some (Parsed rc) \<and>
                 baseGet rc [''generator-ngx-rocket'', ''props'', ''packageManager''] = JUndefined)"
  shows "\<not> truthy (case read_packageManager w of Inl e \<Rightarrow> JNull | Inr v \<Rightarrow> v)"
  using assms
proof (elim disjE exE conjE)
  assume "files w (rc_path w) = None"
  then show ?thesis by (simp add: read_packageManager_missing)
next
  assume "files w (rc_path w) = Some Unparsable"
  then show ?thesis by (simp add: read_packageManager_unparsable)
next
  fix rc
  assume f: "files w (rc_path w) = Some (Parsed rc)"
    and u: "baseGet rc [''generator-ngx-rocket'', ''props'', ''packageManager''] = JUndefined"
  show ?thesis
  proof (cases "read_packageManager w")
    case (Inl e)
    then show ?thesis by simp
  next
    case (Inr v)
    with read_packageManager_parsed [OF f] u have "v = JUndefined" by simp
    with Inr show ?thesis by simp
  qed
qed

lemma packageManager_no_flag:
  "\<not> truthy (opt_packageManager opts) \<Longrightarrow>
   packageManager opts w =
     js_or (case read_packageManager w of Inl e \<Rightarrow> JNull | Inr v \<Rightarrow> v)
       (js_or (env_packageManager w) (JStr ''npm''))"
  by (simp add: packageManager_def)

text \<open>
  The precedence below the flag, as the claim C2 has it: the project record, then the
  environment variable, then \<open>npm\<close>.
\<close>

lemma packageManager_record:
  assumes "\<not> truthy (opt_packageManager opts)" and "read_packageManager w = Inr v" and "truthy v"
  shows "packageManager opts w = v"
  using assms by (simp add: packageManager_no_flag js_or_def)

lemma packageManager_env:
  assumes "\<not> truthy (opt_packageManager opts)"
    and "\<not> truthy (case read_packageManager w of Inl e \<Rightarrow> JNull | Inr v \<Rightarrow> v)"
    and "NGX_PACKAGE_MANAGER w = Some v" and "v \<noteq> []"
  shows "packageManager opts w = JStr v"
  using assms by (simp add: packageManager_no_flag js_or_def env_packageManager_def)

lemma packageManager_default:
  assumes "\<not> truthy (opt_packageManager opts)"
    and "\<not> truthy (case read_packageManager w of Inl e \<Rightarrow> JNull | Inr v \<Rightarrow> v)"
    and "NGX_PACKAGE_MANAGER w = None \<or> NGX_PACKAGE_MANAGER w = Some []"
  shows "packageManager opts w = JStr ''npm''"
  using assms by (auto simp add: packageManager_no_flag js_or_def env_packageManager_def)

text \<open>
  The function \<open>_packageManager\<close> alone would honour a flag whose value is the string
  \<open>yarn\<close>, and turns any other truthy value into \<open>npm\<close>.
\<close>

lemma packageManager_string_flag:
  "packageManager (opts\<lparr>opt_packageManager := JStr ''yarn''\<rparr>) w = JStr ''yarn'' \<and>
   packageManager (opts\<lparr>opt_packageManager := JStr ''foo''\<rparr>) w = JStr ''npm''"
  by (simp add: packageManager_def)

text \<open>
  But the constructor declares \<open>packageManager\<close> a boolean option, so what \<open>minimist\<close>
  leaves in \<open>this._options.packageManager\<close> is never a string.
\<close>

lemma minimist_arg_bool:
  "minimist_arg argv arg rest = Some (argv', rest') \<Longrightarrow>
   \<exists>b. opt_packageManager argv = JBool b \<Longrightarrow>
   \<exists>b. opt_packageManager argv' = JBool b"
  by (auto simp add: minimist_arg_def Let_def setArg_def split: if_splits list.splits)

lemma minimist_loop_bool:
  "minimist_loop argv args = Some opts \<Longrightarrow> \<exists>b. opt_packageManager argv = JBool b \<Longrightarrow>
   \<exists>b. opt_packageManager opts = JBool b"
proof (induction argv args rule: minimist_loop.induct)
  case (1 argv)
  then show ?case by simp
next
  case (2 argv arg rest)
  from "2.prems"(1) obtain argv' rest' where
    step: "minimist_arg argv arg rest = Some (argv', rest')" and
    loop: "minimist_loop argv' rest' = Some opts"
    by (auto split: option.splits)
  from step "2.prems"(2) have "\<exists>b. opt_packageManager argv' = JBool b"
    by (rule minimist_arg_bool)
  with "2.IH" step loop show ?case by simp
qed

lemma minimist_packageManager_bool:
  "minimist args = Some opts \<Longrightarrow> \<exists>b. opt_packageManager opts = JBool b"
  unfolding minimist_def by (erule minimist_loop_bool) (simp add: exI [of _ False])

lemma flag_never_selects_yarn:
  assumes "minimist args = Some opts" and "truthy (opt_packageManager opts)"
  shows "packageManager opts w = JStr ''npm''"
proof -
  from assms(1) obtain b where "opt_packageManager opts = JBool b"
    using minimist_packageManager_bool by blast
  with assms(2) show ?thesis by (simp add: packageManager_def)
qed

lemma packageManager_true_flag:
  "packageManager (no_flags\<lparr>opt_packageManager := JBool True\<rparr>) w = JStr ''npm''"
  by (simp add: packageManager_def no_flags_def)

lemma parse_flag_yarn:
  "minimist [''new'', ''--packageManager'', ''yarn''] = Some (no_flags\<lparr>opt_packageManager := JBool True\<rparr>)"
  by code_simp

lemma parse_flag_equals_yarn:
  "minimist [''new'', ''--packageManager=yarn''] = Some (no_flags\<lparr>opt_packageManager := JBool True\<rparr>)"
  by code_simp

lemma parse_no_flag: "minimist [''new''] = Some no_flags"
  by code_simp

lemma yarn_world_no_flag: "packageManager no_flags yarn_world = JStr ''yarn''"
  by code_simp

text \<open>
  C2.  The claim does not hold of the code at its first case.  \<open>ngx new --packageManager yarn\<close>
  (and \<open>--packageManager=yarn\<close>) resolves to \<open>npm\<close>, also in a project recorded with yarn
  and with the environment variable set to yarn, where the same command line without the
  flag resolves to \<open>yarn\<close>.
\<close>

theorem flag_yarn_resolves_to_npm:
  "map_option (\<lambda>opts. packageManager opts example_world)
     (minimist [''new'', ''--packageManager'', ''yarn'']) = Some (JStr ''npm'') \<and>
   map_option (\<lambda>opts. packageManager opts yarn_world)
     (minimist [''new'', ''--packageManager'', ''yarn'']) = Some (JStr ''npm'') \<and>
   map_option (\<lambda>opts. packageManager opts yarn_world)
     (minimist [''new'', ''--packageManager=yarn'']) = Some (JStr ''npm'') \<and>
   map_option (\<lambda>opts. packageManager opts yarn_world) (minimist [''new'']) = Some (JStr ''yarn'')"
  by (simp add: parse_flag_yarn parse_flag_equals_yarn parse_no_flag yarn_world_no_flag
        packageManager_true_flag)

text \<open>
  C8, counterexample.  Nothing narrows what comes from the environment variable (or from
  the project record) to the two names: with \<open>NGX_PACKAGE_MANAGER=pnpm\<close> and no flag,
  \<open>ngx new\<close> resolves to \<open>pnpm\<close>.
\<close>

theorem env_value_passes_through:
  "minimist [''new''] = Some no_flags \<and>
   packageManager no_flags pnpm_world = JStr ''pnpm'' \<and>
   \<not> (packageManager no_flags pnpm_world = JStr ''yarn'' \<or>
      packageManager no_flags pnpm_world = JStr ''npm'')"
proof -
  have "packageManager no_flags pnpm_world = JStr ''pnpm''" by code_simp
  with parse_no_flag show ?thesis by simp
qed

text \<open>
  C8, amended.  Whatever the flag, the resolver returns \<open>yarn\<close> or \<open>npm\<close> provided the
  value recorded in the project manifest, when there is a truthy one, and the environment
  variable, when it is set and not empty, are each one of these two names.
\<close>

theorem packageManager_yarn_or_npm:
  assumes "\<forall>v. read_packageManager w = Inr v \<and> truthy v \<longrightarrow> v = JStr ''yarn'' \<or> v = JStr ''npm''"
    and "\<forall>v. NGX_PACKAGE_MANAGER w = Some v \<and> v \<noteq> [] \<longrightarrow> v = ''yarn'' \<or> v = ''npm''"
  shows "packageManager opts w = JStr ''yarn'' \<or> packageManager opts w = JStr ''npm''"
proof (cases "truthy (opt_packageManager opts)")
  case True
  then show ?thesis by (simp add: packageManager_def)
next
  case False
  show ?thesis
  proof (cases "read_packageManager w")
    case (Inl e)
    with False assms(2) show ?thesis
      by (cases "NGX_PACKAGE_MANAGER w")
         (auto simp add: packageManager_def js_or_def env_packageManager_def)
  next
    case (Inr v)
    show ?thesis
    proof (cases "truthy v")
      case True
      with Inr assms(1) have "v = JStr ''yarn'' \<or> v = JStr ''npm''" by blast
      with False Inr True show ?thesis
        by (auto simp add: packageManager_def js_or_def)
    next
      case nv: False
      with False Inr assms(2) show ?thesis
        by (cases "NGX_PACKAGE_MANAGER w")
           (auto simp add: packageManager_def js_or_def env_packageManager_def)
    qed
  qed
qed

lemma yarn_world_record: "read_packageManager yarn_world = Inr (JStr ''yarn'')"
  by code_simp

lemma yarn_world_env: "NGX_PACKAGE_MANAGER yarn_world = Some ''yarn''"
  by code_simp

theorem packageManager_yarn_or_npm_witness:
  "read_packageManager yarn_world = Inr (JStr ''yarn'') \<and>
   NGX_PACKAGE_MANAGER yarn_world = Some ''yarn'' \<and>
   (packageManager no_flags yarn_world = JStr ''yarn'' \<or>
    packageManager no_flags yarn_world = JStr ''npm'')"
  using packageManager_yarn_or_npm [of yarn_world no_flags]
  by (simp add: yarn_world_record yarn_world_env)

text \<open>
  C4, counterexample.  For the add-on flag of \<open>update\<close> a missing \<open>.yo-rc.json\<close> is not
  taken as absent: the command writes an error and ends the process with status 1.
\<close>

theorem missing_manifest_is_fatal_for_update:
  "files example_world (rc_path example_world) = None \<and>
   generate no_flags example_world True [] (JBool False) =
     [ConsoleError no_app_message, ProcessExit 1]"
  by (simp add: example_no_manifest generate_def generate_start_missing exit_with_def)

text \<open>
  C4, amended.  Without a flag, the package manager resolver takes a \<open>.yo-rc.json\<close> that
  is missing, does not parse or has nothing at \<open>generator-ngx-rocket.props.packageManager\<close>
  as no record, and goes on to the environment variable and then \<open>npm\<close>.  The add-on
  flag of \<open>update\<close> is false when the manifest parses and has nothing at
  \<open>generator-ngx-rocket.props.isAddon\<close>.  When the manifest is missing, \<open>update\<close> ends
  with the error message and status 1.
\<close>

theorem manifest_failures_fall_through:
  "(\<not> truthy (opt_packageManager opts) \<and>
      (files w (rc_path w) = None \<or> files w (rc_path w) = Some Unparsable \<or>
       (\<exists>rc. files w (rc_path w) = Some (Parsed rc) \<and>
             baseGet rc [''generator-ngx-rocket'', ''props'', ''packageManager''] = JUndefined))
    \<longrightarrow> packageManager opts w = js_or (env_packageManager w) (JStr ''npm'')) \<and>
   ((\<exists>rc. files w (rc_path w) = Some (Parsed rc) \<and>
          get rc ''generator-ngx-rocket.props.isAddon'' = JUndefined)
    \<longrightarrow> generate_start w True addon = Inr ([], JBool False)) \<and>
   (files w (rc_path w) = None
    \<longrightarrow> generate opts w True args addon = [ConsoleError no_app_message, ProcessExit 1])"
proof (intro conjI impI)
  assume h: "\<not> truthy (opt_packageManager opts) \<and>
      (files w (rc_path w) = None \<or> files w (rc_path w) = Some Unparsable \<or>
       (\<exists>rc. files w (rc_path w) = Some (Parsed rc) \<and>
             baseGet rc [''generator-ngx-rocket'', ''props'', ''packageManager''] = JUndefined))"
  then have "\<not> truthy (case read_packageManager w of Inl e \<Rightarrow> JNull | Inr v \<Rightarrow> v)"
    using recorded_falsy [of w] by blast
  with h show "packageManager opts w = js_or (env_packageManager w) (JStr ''npm'')"
    by (simp add: packageManager_no_flag js_or_def)
next
  assume "\<exists>rc. files w (rc_path w) = Some (Parsed rc) \<and>
          get rc ''generator-ngx-rocket.props.isAddon'' = JUndefined"
  then obtain rc where "files w (rc_path w) = Some (Parsed rc)"
    and "get rc ''generator-ngx-rocket.props.isAddon'' = JUndefined" by blast
  then show "generate_start w True addon = Inr ([], JBool False)"
    by (simp add: generate_start_parsed)
next
  assume "files w (rc_path w) = None"
  then show "generate opts w True args addon = [ConsoleError no_app_message, ProcessExit 1]"
    by (simp add: generate_def generate_start_missing exit_with_def)
qed

lemma bare_project_manifest:
  "files (in_project example_world (Parsed (JObj [])))
     (rc_path (in_project example_world (Parsed (JObj [])))) = Some (Parsed (JObj []))"
  by code_simp

lemma bare_manifest_no_flag: "get (JObj []) ''generator-ngx-rocket.props.isAddon'' = JUndefined"
  by code_simp

lemma example_env: "env_packageManager example_world = JUndefined"
  by code_simp

theorem manifest_failures_fall_through_witness:
  "files example_world (rc_path example_world) = None \<and>
   packageManager no_flags example_world = JStr ''npm'' \<and>
   generate_start (in_project example_world (Parsed (JObj []))) True (JBool True) =
     Inr ([], JBool False) \<and>
   generate no_flags example_world True [] (JBool True) =
     [ConsoleError no_app_message, ProcessExit 1]"
  using manifest_failures_fall_through [of no_flags example_world "JBool True" "[]"]
        manifest_failures_fall_through
          [of no_flags "in_project example_world (Parsed (JObj []))" "JBool True" "[]"]
  by (simp add: example_no_manifest bare_project_manifest bare_manifest_no_flag example_env
        js_or_def no_flags_def)

end
